theory Spec2Isabelle
  imports Main "HOL-Library.Sublist" "HOL-Library.Monad_Syntax"
begin

section \<open>Go strings\<close>

text \<open>
  A Go \<^verbatim>\<open>string\<close> is a sequence of bytes; \<^typ>\<open>string\<close> is a list of 8-bit
  characters, so \<^term>\<open>length\<close> is Go's \<^verbatim>\<open>len\<close> and a non-ASCII character
  occupies several list elements (its UTF-8 encoding).

  The functions of package \<^verbatim>\<open>strings\<close> that \<^verbatim>\<open>transform.go\<close> calls are
  modelled after the Go standard library for a non-empty separator, the only kind of
  separator the file passes (\<^verbatim>\<open>":"\<close>, \<^verbatim>\<open>","\<close> and \<^verbatim>\<open>"%s"\<close>).
\<close>

text \<open>\<^verbatim>\<open>strings.Index\<close>: the offset of the first occurrence, \<^term>\<open>None\<close> for Go's -1.\<close>

fun Index :: "string \<Rightarrow> string \<Rightarrow> nat option" where
  "Index [] sub = (if sub = [] then Some 0 else None)"
| "Index (c # cs) sub =
     (if prefix sub (c # cs) then Some 0 else map_option Suc (Index cs sub))"

definition Contains :: "string \<Rightarrow> string \<Rightarrow> bool" where
  "Contains s sub = (Index s sub \<noteq> None)"

text \<open>
  \<^verbatim>\<open>strings.Count\<close> counts non-overlapping occurrences; the search restarts behind
  each occurrence, at most \<^term>\<open>length s\<close> times.
\<close>

fun count_from :: "nat \<Rightarrow> string \<Rightarrow> string \<Rightarrow> nat" where
  "count_from 0 s sep = 0"
| "count_from (Suc k) s sep =
     (case Index s sep of
        None \<Rightarrow> 0
      | Some m \<Rightarrow> Suc (count_from k (drop (m + length sep) s) sep))"

definition Count :: "string \<Rightarrow> string \<Rightarrow> nat" where
  "Count s sep = count_from (length s) s sep"

text \<open>
  The loop of \<^verbatim>\<open>genSplit\<close>: cut at the next separator while cuts remain, the rest
  of the string is the last piece.
\<close>

fun genSplit :: "string \<Rightarrow> string \<Rightarrow> nat \<Rightarrow> string list" where
  "genSplit s sep 0 = [s]"
| "genSplit s sep (Suc k) =
     (case Index s sep of
        None \<Rightarrow> [s]
      | Some m \<Rightarrow> take m s # genSplit (drop (m + length sep) s) sep k)"

text \<open>\<^verbatim>\<open>strings.SplitN(s, sep, n)\<close> for \<open>n \<ge> 0\<close>: at most \<open>n\<close> pieces.\<close>

definition SplitN :: "string \<Rightarrow> string \<Rightarrow> nat \<Rightarrow> string list" where
  "SplitN s sep n = (if n = 0 then [] else genSplit s sep (min n (length s + 1) - 1))"

text \<open>\<^verbatim>\<open>strings.Split(s, sep)\<close>: \<^verbatim>\<open>genSplit\<close> with \<open>n = Count(s, sep) + 1\<close>.\<close>

definition Split :: "string \<Rightarrow> string \<Rightarrow> string list" where
  "Split s sep = genSplit s sep (Count s sep)"

text \<open>
  \<^verbatim>\<open>strings.ReplaceAll\<close>: every non-overlapping occurrence of \<open>old\<close>, from the
  left, is replaced by \<open>new\<close>.
\<close>

fun replace_n :: "nat \<Rightarrow> string \<Rightarrow> string \<Rightarrow> string \<Rightarrow> string" where
  "replace_n 0 s old new = s"
| "replace_n (Suc k) s old new =
     (case Index s old of
        None \<Rightarrow> s
      | Some j \<Rightarrow> take j s @ new @ replace_n k (drop (j + length old) s) old new)"

definition ReplaceAll :: "string \<Rightarrow> string \<Rightarrow> string \<Rightarrow> string" where
  "ReplaceAll s old new = (if old = new then s else replace_n (Count s old) s old new)"

subsection \<open>UTF-8\<close>

text \<open>
  \<^verbatim>\<open>strings.ToUpper\<close>, \<^verbatim>\<open>strings.ToLower\<close> and \<^verbatim>\<open>strings.TrimSpace\<close>
  read their argument as UTF-8. Runes are natural numbers; \<open>RuneError\<close> is
  U+FFFD, which \<^verbatim>\<open>utf8.DecodeRuneInString\<close> returns, with width 1, for a byte
  that starts no valid encoding.
\<close>

definition RuneError :: nat where
  "RuneError = 0xFFFD"

definition byte :: "char \<Rightarrow> nat" where
  "byte c = of_char c"

definition in_range :: "nat \<Rightarrow> nat \<Rightarrow> nat \<Rightarrow> bool" where
  "in_range lo hi b = (lo \<le> b \<and> b \<le> hi)"

text \<open>The range accepted for the second byte depends on the first (\<^verbatim>\<open>acceptRanges\<close>).\<close>

definition second_lo :: "nat \<Rightarrow> nat" where
  "second_lo p0 = (if p0 = 0xE0 then 0xA0 else if p0 = 0xF0 then 0x90 else 0x80)"

definition second_hi :: "nat \<Rightarrow> nat" where
  "second_hi p0 = (if p0 = 0xED then 0x9F else if p0 = 0xF4 then 0x8F else 0xBF)"

fun DecodeRune :: "nat list \<Rightarrow> nat \<times> nat" where
  "DecodeRune [] = (RuneError, 0)"
| "DecodeRune (p0 # rest) =
     (if p0 < 0x80 then (p0, 1)
      else if in_range 0xC2 0xDF p0 then
        (case rest of
           b1 # _ \<Rightarrow>
             if in_range 0x80 0xBF b1 then ((p0 mod 0x20) * 0x40 + b1 mod 0x40, 2)
             else (RuneError, 1)
         | _ \<Rightarrow> (RuneError, 1))
      else if in_range 0xE0 0xEF p0 then
        (case rest of
           b1 # b2 # _ \<Rightarrow>
             if in_range (second_lo p0) (second_hi p0) b1 \<and> in_range 0x80 0xBF b2
             then ((p0 mod 0x10) * 0x1000 + (b1 mod 0x40) * 0x40 + b2 mod 0x40, 3)
             else (RuneError, 1)
         | _ \<Rightarrow> (RuneError, 1))
      else if in_range 0xF0 0xF4 p0 then
        (case rest of
           b1 # b2 # b3 # _ \<Rightarrow>
             if in_range (second_lo p0) (second_hi p0) b1 \<and> in_range 0x80 0xBF b2
                \<and> in_range 0x80 0xBF b3
             then ((p0 mod 0x08) * 0x40000 + (b1 mod 0x40) * 0x1000 + (b2 mod 0x40) * 0x40
                    + b3 mod 0x40, 4)
             else (RuneError, 1)
         | _ \<Rightarrow> (RuneError, 1))
      else (RuneError, 1))"

definition DecodeRuneInString :: "string \<Rightarrow> nat \<times> nat" where
  "DecodeRuneInString s = DecodeRune (map byte s)"

text \<open>
  \<^verbatim>\<open>utf8.DecodeLastRuneInString\<close>: step back over at most three continuation
  bytes to a byte that can start a rune, decode from there, and accept the rune when
  it ends at the end of the string.
\<close>

definition RuneStart :: "nat \<Rightarrow> bool" where
  "RuneStart b = (\<not> in_range 0x80 0xBF b)"

definition DecodeLastRuneInString :: "string \<Rightarrow> nat \<times> nat" where
  "DecodeLastRuneInString s =
     (let e = int (length s) in
      if e = 0 then (RuneError, 0)
      else if byte (s ! nat (e - 1)) < 0x80 then (byte (s ! nat (e - 1)), 1)
      else
        let lim = max 0 (e - 4);
            start = (case find (\<lambda>i. RuneStart (byte (s ! nat i)))
                            (filter (\<lambda>i. lim \<le> i) [e - 2, e - 3, e - 4]) of
                       Some i \<Rightarrow> i
                     | None \<Rightarrow> max 0 (lim - 1));
            (r, size) = DecodeRuneInString (drop (nat start) s)
        in if start + int size \<noteq> e then (RuneError, 1) else (r, size))"

text \<open>\<^verbatim>\<open>utf8.AppendRune\<close>: surrogates and values beyond U+10FFFF are written as U+FFFD.\<close>

definition EncodeRune :: "nat \<Rightarrow> string" where
  "EncodeRune r =
     (if r \<le> 0x7F then [char_of r]
      else if r \<le> 0x7FF then [char_of (0xC0 + r div 0x40), char_of (0x80 + r mod 0x40)]
      else if 0x10FFFF < r \<or> in_range 0xD800 0xDFFF r then [CHR 0xEF, CHR 0xBF, CHR 0xBD]
      else if r \<le> 0xFFFF then
        [char_of (0xE0 + r div 0x1000), char_of (0x80 + (r div 0x40) mod 0x40),
         char_of (0x80 + r mod 0x40)]
      else
        [char_of (0xF0 + r div 0x40000), char_of (0x80 + (r div 0x1000) mod 0x40),
         char_of (0x80 + (r div 0x40) mod 0x40), char_of (0x80 + r mod 0x40)])"

lemma DecodeRune_size: "bs \<noteq> [] \<Longrightarrow> 0 < snd (DecodeRune bs)"
  by (cases bs) (auto split: list.splits)

text \<open>The runes a \<^verbatim>\<open>for _, c := range s\<close> loop visits.\<close>

function runes :: "string \<Rightarrow> nat list" where
  "runes s =
     (if s = [] then []
      else fst (DecodeRuneInString s) # runes (drop (snd (DecodeRuneInString s)) s))"
  by pat_completeness auto
termination
proof (relation "measure length")
  show "wf (measure length)" by simp
next
  fix s :: string
  assume "s \<noteq> []"
  then have "0 < snd (DecodeRuneInString s)"
    unfolding DecodeRuneInString_def by (intro DecodeRune_size) simp
  with \<open>s \<noteq> []\<close> show "(drop (snd (DecodeRuneInString s)) s, s) \<in> measure length"
    by simp
qed

declare runes.simps [simp del]

text \<open>
  \<^verbatim>\<open>strings.Map(mapping, s)\<close> for a mapping without negative results: every rune of
  \<open>s\<close>, an invalid byte read as U+FFFD, is mapped and written in UTF-8.
\<close>

definition Map_runes :: "(nat \<Rightarrow> nat) \<Rightarrow> string \<Rightarrow> string" where
  "Map_runes mapping s = concat (map (\<lambda>c. EncodeRune (mapping c)) (runes s))"

subsection \<open>Case mapping and white space\<close>

text \<open>
  \<^verbatim>\<open>unicode.ToUpper\<close> and \<^verbatim>\<open>unicode.ToLower\<close> on the code points up to U+00FF
  (ASCII and the Latin-1 Supplement), as the tables of package \<^verbatim>\<open>unicode\<close> have
  them. The tables of the other scripts are not part of this development: a code point
  above U+00FF is left as it is, which is what Go does for U+FFFD and for every code
  point without case.
\<close>

definition unicode_ToUpper :: "nat \<Rightarrow> nat" where
  "unicode_ToUpper r =
     (if in_range 0x61 0x7A r then r - 0x20
      else if r = 0xB5 then 0x39C
      else if in_range 0xE0 0xF6 r \<or> in_range 0xF8 0xFE r then r - 0x20
      else if r = 0xFF then 0x178
      else r)"

definition unicode_ToLower :: "nat \<Rightarrow> nat" where
  "unicode_ToLower r =
     (if in_range 0x41 0x5A r then r + 0x20
      else if in_range 0xC0 0xD6 r \<or> in_range 0xD8 0xDE r then r + 0x20
      else r)"

text \<open>\<^verbatim>\<open>unicode.IsSpace\<close>: the code points with the property White_Space.\<close>

definition IsSpace :: "nat \<Rightarrow> bool" where
  "IsSpace r =
     (in_range 0x09 0x0D r \<or> r = 0x20 \<or> r = 0x85 \<or> r = 0xA0 \<or> r = 0x1680
      \<or> in_range 0x2000 0x200A r \<or> r = 0x2028 \<or> r = 0x2029 \<or> r = 0x202F
      \<or> r = 0x205F \<or> r = 0x3000)"

text \<open>
  \<^verbatim>\<open>strings.ToUpper\<close> and \<^verbatim>\<open>strings.ToLower\<close>: a string of ASCII bytes is mapped
  byte by byte, any other string goes through \<^verbatim>\<open>strings.Map\<close>.
\<close>

definition isASCII :: "string \<Rightarrow> bool" where
  "isASCII s = list_all (\<lambda>c. byte c < 0x80) s"

definition ToUpper :: "string \<Rightarrow> string" where
  "ToUpper s =
     (if isASCII s
      then map (\<lambda>c. if in_range 0x61 0x7A (byte c) then char_of (byte c - 0x20) else c) s
      else Map_runes unicode_ToUpper s)"

definition ToLower :: "string \<Rightarrow> string" where
  "ToLower s =
     (if isASCII s
      then map (\<lambda>c. if in_range 0x41 0x5A (byte c) then char_of (byte c + 0x20) else c) s
      else Map_runes unicode_ToLower s)"

text \<open>
  \<^verbatim>\<open>strings.TrimSpace\<close>: the leading runes and then the trailing runes that are
  white space are removed.
\<close>

function TrimLeftSpace :: "string \<Rightarrow> string" where
  "TrimLeftSpace s =
     (if s = [] then []
      else if IsSpace (fst (DecodeRuneInString s))
      then TrimLeftSpace (drop (snd (DecodeRuneInString s)) s)
      else s)"
  by pat_completeness auto
termination
proof (relation "measure length")
  show "wf (measure length)" by simp
next
  fix s :: string
  assume "s \<noteq> []"
  then have "0 < snd (DecodeRuneInString s)"
    unfolding DecodeRuneInString_def by (intro DecodeRune_size) simp
  with \<open>s \<noteq> []\<close> show "(drop (snd (DecodeRuneInString s)) s, s) \<in> measure length"
    by simp
qed

declare TrimLeftSpace.simps [simp del]

lemma DecodeLastRune_size: "s \<noteq> [] \<Longrightarrow> 0 < snd (DecodeLastRuneInString s)"
proof -
  assume ne: "s \<noteq> []"
  define e where "e = int (length s)"
  define lim where "lim = max 0 (e - 4)"
  define start where
    "start = (case find (\<lambda>i. RuneStart (byte (s ! nat i)))
                      (filter (\<lambda>i. lim \<le> i) [e - 2, e - 3, e - 4]) of
                Some i \<Rightarrow> i
              | None \<Rightarrow> max 0 (lim - 1))"
  obtain r sz where d: "DecodeRuneInString (drop (nat start) s) = (r, sz)"
    by fastforce
  have e_pos: "0 < e" using ne by (simp add: e_def)
  have "start < e"
  proof (cases "find (\<lambda>i. RuneStart (byte (s ! nat i)))
                      (filter (\<lambda>i. lim \<le> i) [e - 2, e - 3, e - 4])")
    case None
    then show ?thesis using e_pos by (simp add: start_def lim_def)
  next
    case (Some i)
    then obtain k where
      "k < length (filter (\<lambda>i. lim \<le> i) [e - 2, e - 3, e - 4])"
      "i = filter (\<lambda>i. lim \<le> i) [e - 2, e - 3, e - 4] ! k"
      unfolding find_Some_iff by blast
    then have "i \<in> set (filter (\<lambda>i. lim \<le> i) [e - 2, e - 3, e - 4])"
      using nth_mem by metis
    then have "i \<in> set [e - 2, e - 3, e - 4]"
      unfolding set_filter by blast
    then have "i < e" by auto
    then show ?thesis using Some by (simp add: start_def)
  qed
  then have "nat start < length s" using e_pos unfolding e_def by linarith
  then have "drop (nat start) s \<noteq> []" by simp
  then have "0 < snd (DecodeRune (map byte (drop (nat start) s)))"
    by (intro DecodeRune_size) simp
  then have sz_pos: "0 < sz" using d by (simp add: DecodeRuneInString_def)
  have "DecodeLastRuneInString s =
          (if byte (s ! nat (e - 1)) < 0x80 then (byte (s ! nat (e - 1)), 1)
           else if start + int sz \<noteq> e then (RuneError, 1) else (r, sz))"
    unfolding DecodeLastRuneInString_def Let_def
    unfolding e_def [symmetric] lim_def [symmetric] start_def [symmetric] d
    using e_pos by simp
  then show ?thesis using sz_pos by simp
qed

function TrimRightSpace :: "string \<Rightarrow> string" where
  "TrimRightSpace s =
     (if s = [] then []
      else if IsSpace (fst (DecodeLastRuneInString s))
      then TrimRightSpace (take (length s - snd (DecodeLastRuneInString s)) s)
      else s)"
  by pat_completeness auto
termination
proof (relation "measure length")
  show "wf (measure length)" by simp
next
  fix s :: string
  assume "s \<noteq> []"
  then show "(take (length s - snd (DecodeLastRuneInString s)) s, s) \<in> measure length"
    using DecodeLastRune_size [of s] by simp
qed

declare TrimRightSpace.simps [simp del]

definition TrimSpace :: "string \<Rightarrow> string" where
  "TrimSpace s = TrimRightSpace (TrimLeftSpace s)"

section \<open>Errors\<close>

text \<open>
  The error values of \<^verbatim>\<open>github.com/pkg/errors\<close>: \<^verbatim>\<open>errors.New(msg)\<close> and
  \<^verbatim>\<open>errors.Wrap(err, msg)\<close>, and the syntax error of \<^verbatim>\<open>regexp.Compile\<close>.
  \<open>Error\<close> is the message each of them prints.
\<close>

datatype error = New string | Wrap error string | Syntax string

fun Error :: "error \<Rightarrow> string" where
  "Error (New msg) = msg"
| "Error (Wrap err msg) = msg @ '': '' @ Error err"
| "Error (Syntax msg) = ''error parsing regexp: '' @ msg"

section \<open>Lookup functions\<close>

text \<open>\<^verbatim>\<open>type LookupFunc func(string) (string, bool)\<close>\<close>

type_synonym LookupFunc = "string \<Rightarrow> string \<times> bool"

text \<open>
  \<^verbatim>\<open>LookupHandlers(m)\<close>: a Go map read with the two-value form; a nil map reads
  as the empty map.
\<close>

definition LookupHandlers :: "(string \<rightharpoonup> string) \<Rightarrow> LookupFunc" where
  "LookupHandlers m = (\<lambda>name. case m name of None \<Rightarrow> ('''', False) | Some val \<Rightarrow> (val, True))"

text \<open>
  The process environment is a map from names to values; \<^verbatim>\<open>os.Getenv\<close> returns
  the empty string for a name that is not set.
\<close>

type_synonym environ = "string \<rightharpoonup> string"

definition Getenv :: "environ \<Rightarrow> string \<Rightarrow> string" where
  "Getenv env name = (case env name of None \<Rightarrow> '''' | Some val \<Rightarrow> val)"

definition LookupEnv :: "environ \<Rightarrow> LookupFunc" where
  "LookupEnv env = (\<lambda>name. if Getenv env name \<noteq> '''' then (Getenv env name, True) else ('''', False))"

definition LookupStatic :: "string \<Rightarrow> LookupFunc" where
  "LookupStatic val = (\<lambda>name.
     if Contains val ''%s'' then (ReplaceAll val ''%s'' name, True) else (val, True))"

section \<open>Regular expressions\<close>

text \<open>
  Package \<^verbatim>\<open>regexp\<close> is outside the repository. A compiled \<^verbatim>\<open>*regexp.Regexp\<close>
  is the record of the three methods \<^verbatim>\<open>transform.go\<close> calls on it:
  \<^verbatim>\<open>re.String()\<close>, \<^verbatim>\<open>re.SubexpIndex(name)\<close> (-1 when no group has the name) and
  \<^verbatim>\<open>re.FindAllStringSubmatchIndex(s, -1)\<close>, which returns one index list per match:
  positions \<open>2 * i\<close> and \<open>2 * i + 1\<close> hold the bounds of group \<open>i\<close> (group 0 is the
  whole match), both -1 for a group that took no part in the match.
  \<^verbatim>\<open>regexp.Compile\<close> is a parameter of the functions that call it.
\<close>

record Regexp =
  String :: string
  SubexpIndex :: "string \<Rightarrow> int"
  FindAllStringSubmatchIndex :: "string \<Rightarrow> int list list"

section \<open>Slices and panics\<close>

text \<open>
  A slice expression \<^verbatim>\<open>s[lo:hi]\<close> and an index expression \<^verbatim>\<open>m[i]\<close> panic when
  out of range; \<^term>\<open>None\<close> is the panic.
\<close>

definition slice :: "string \<Rightarrow> int \<Rightarrow> int \<Rightarrow> string option" where
  "slice s lo hi =
     (if 0 \<le> lo \<and> lo \<le> hi \<and> hi \<le> int (length s)
      then Some (take (nat hi - nat lo) (drop (nat lo) s)) else None)"

definition at :: "int list \<Rightarrow> int \<Rightarrow> int option" where
  "at m i = (if 0 \<le> i \<and> i < int (length m) then Some (m ! nat i) else None)"

section \<open>Transformation functions\<close>

text \<open>
  \<^verbatim>\<open>type TransformFunc func(string) (string, error)\<close>. A Go function value is a
  closure, and a call returns both results, so the model of a call has
  \<^item> the pair of results, \<^typ>\<open>string \<times> error option\<close> (\<^term>\<open>None\<close> is \<^verbatim>\<open>nil\<close>),
    or \<^term>\<open>None\<close> when the call panics;
  \<^item> as first argument the \<^verbatim>\<open>Lookups\<close> field, at the time of the call, of the
    \<^verbatim>\<open>Transform\<close> the function is applied by: the closure that \<^verbatim>\<open>Expand\<close> returns
    captures the pointer \<^verbatim>\<open>t\<close> and reads \<^verbatim>\<open>t.Lookups\<close> when it runs;
  \<^item> a state \<^typ>\<open>'w\<close> that the call may read and change, for functions of the caller
    that have side effects. The functions of \<^verbatim>\<open>transform.go\<close> leave it as it is.
\<close>

type_synonym 'w TransformFunc =
  "LookupFunc list \<Rightarrow> string \<Rightarrow> 'w \<Rightarrow> (string \<times> error option) option \<times> 'w"

definition NOP :: "'w TransformFunc" where
  "NOP L s w = (Some (s, None), w)"

definition Trim :: "'w TransformFunc" where
  "Trim L s w = (Some (TrimSpace s, None), w)"

definition Downcase :: "'w TransformFunc" where
  "Downcase L s w = (Some (ToLower s, None), w)"

definition Upcase :: "'w TransformFunc" where
  "Upcase L s w = (Some (ToUpper s, None), w)"

text \<open>\<^verbatim>\<open>s[:1]\<close> and \<^verbatim>\<open>s[1:]\<close> are in range, \<open>s\<close> being non-empty there.\<close>

definition Capitalize :: "'w TransformFunc" where
  "Capitalize L s w =
     (if s = '''' then (Some ('''', None), w)
      else (Some (ToUpper (take 1 s) @ ToLower (drop 1 s), None), w))"

section \<open>Expand\<close>

text \<open>The inner loop of \<^verbatim>\<open>Expand\<close>: the value of the first lookup that reports \<open>ok\<close>.\<close>

fun resolve :: "LookupFunc list \<Rightarrow> string \<Rightarrow> string" where
  "resolve [] key = ''''"
| "resolve (f # ff) key = (case f key of (v, ok) \<Rightarrow> if ok then v else resolve ff key)"

text \<open>The loop over the matches, with the variables \<open>pos\<close> and \<open>s2\<close> as arguments.\<close>

fun expand_matches ::
  "LookupFunc list \<Rightarrow> int \<Rightarrow> string \<Rightarrow> int \<Rightarrow> string \<Rightarrow> int list list
     \<Rightarrow> (string \<times> error option) option" where
  "expand_matches ff idx s pos s2 [] =
     do { rest \<leftarrow> slice s pos (int (length s)); Some (s2 @ rest, None) }"
| "expand_matches ff idx s pos s2 (m # matches) =
     do { lo \<leftarrow> at m (idx * 2);
          hi \<leftarrow> at m (idx * 2 + 1);
          key \<leftarrow> slice s lo hi;
          let val = resolve ff key;
          if val = '''' then Some ('''', Some (New (''could not resolve variable: '' @ key)))
          else do { m0 \<leftarrow> at m 0;
                    before \<leftarrow> slice s pos m0;
                    m1 \<leftarrow> at m 1;
                    expand_matches ff idx s m1 (s2 @ before @ val) matches } }"

text \<open>
  The body of the closure. \<open>ff\<close> is the captured variable of that name and \<open>L\<close> is
  \<^verbatim>\<open>t.Lookups\<close>.
\<close>

definition expand_body ::
  "Regexp \<Rightarrow> int \<Rightarrow> LookupFunc list \<Rightarrow> LookupFunc list \<Rightarrow> string
     \<Rightarrow> (string \<times> error option) option" where
  "expand_body re idx ff L s =
     (let matches = FindAllStringSubmatchIndex re s in
      if length matches = 0 then Some (s, None)
      else expand_matches (if length ff = 0 then L else ff) idx s 0 '''' matches)"

text \<open>
  The closure assigns to its captured \<open>ff\<close>: after a call that found a match, \<open>ff\<close>
  holds \<^verbatim>\<open>t.Lookups\<close> if it was empty. \<open>expand_captured\<close> is the value of \<open>ff\<close> after
  a call. The function value that \<open>Expand\<close> returns below is the closure with \<open>ff\<close> as
  \<open>Expand\<close> received it, which is every call of the closure when \<open>ff\<close> was given
  non-empty, and otherwise every call up to the first one that finds a match while
  \<^verbatim>\<open>t.Lookups\<close> is non-empty (later calls keep the list read by that one).
\<close>

definition expand_captured ::
  "Regexp \<Rightarrow> LookupFunc list \<Rightarrow> LookupFunc list \<Rightarrow> string \<Rightarrow> LookupFunc list" where
  "expand_captured re ff L s =
     (if length (FindAllStringSubmatchIndex re s) = 0 then ff
      else if length ff = 0 then L else ff)"

definition Expand :: "Regexp \<Rightarrow> LookupFunc list \<Rightarrow> error + 'w TransformFunc" where
  "Expand re ff =
     (let idx = SubexpIndex re ''key'' in
      if idx = - 1
      then Inl (New (''regexp is missing named parenthesized subexpression (?P<key>...): ''
                      @ String re))
      else Inr (\<lambda>L s w. (expand_body re idx ff L s, w)))"

section \<open>The Transform configuration\<close>

text \<open>
  A \<^verbatim>\<open>Handlers\<close> map may hold \<^verbatim>\<open>nil\<close> functions, and so may \<^verbatim>\<open>Rules\<close>; a \<^verbatim>\<open>nil\<close>
  map reads as the empty map. \<open>handler\<close> is the index expression \<^verbatim>\<open>h[tag]\<close>, which
  gives \<^verbatim>\<open>nil\<close> for a missing key.
\<close>

type_synonym 'w Handlers = "string \<rightharpoonup> 'w TransformFunc option"

record 'w Transform =
  Handlers :: "'w Handlers"
  Lookups :: "LookupFunc list"
  Rules :: "'w TransformFunc option list"

definition handler :: "'w Handlers \<Rightarrow> string \<Rightarrow> 'w TransformFunc option" where
  "handler h tag = (case h tag of None \<Rightarrow> None | Some f \<Rightarrow> f)"

text \<open>The option \<^verbatim>\<open>Handler(tag, f)\<close>, applied to \<open>t\<close>.\<close>

definition Handler :: "string \<Rightarrow> 'w TransformFunc option \<Rightarrow> 'w Transform \<Rightarrow> 'w Transform" where
  "Handler tag f t =
     (if tag \<noteq> '''' then
        (case f of
           None \<Rightarrow> t\<lparr>Handlers := (Handlers t)(ToLower tag := None)\<rparr>
         | Some g \<Rightarrow> t\<lparr>Handlers := (Handlers t)(ToLower tag \<mapsto> Some g)\<rparr>)
      else t)"

definition ResetHandlers :: "'w Transform \<Rightarrow> 'w Transform" where
  "ResetHandlers t =
     t\<lparr>Handlers :=
         [''''           \<mapsto> Some NOP,
          ''nop''        \<mapsto> Some NOP,
          ''trim''       \<mapsto> Some Trim,
          ''downcase''   \<mapsto> Some Downcase,
          ''upcase''     \<mapsto> Some Upcase,
          ''capitalize'' \<mapsto> Some Capitalize]\<rparr>"

definition ResetLookups :: "LookupFunc list \<Rightarrow> 'w Transform \<Rightarrow> 'w Transform" where
  "ResetLookups ff t = t\<lparr>Lookups := ff\<rparr>"

definition ResetRules :: "'w TransformFunc option list \<Rightarrow> 'w Transform \<Rightarrow> 'w Transform" where
  "ResetRules ff t = t\<lparr>Rules := ff\<rparr>"

section \<open>Parsing rules\<close>

text \<open>
  \<^verbatim>\<open>strings.SplitN(rule, ":", 2)\<close> has one or two elements (lemma \<open>SplitN_2\<close> below),
  so \<^verbatim>\<open>parts[0]\<close> is in range, and \<^verbatim>\<open>parts[1]\<close> is where the length is not 1.
\<close>

definition ParseStringRule ::
  "(string \<Rightarrow> error + Regexp) \<Rightarrow> 'w Transform \<Rightarrow> string \<Rightarrow> error + 'w TransformFunc" where
  "ParseStringRule Compile t rule =
     (let parts = SplitN rule '':'' 2;
          tag = ToLower (TrimSpace (parts ! 0))
      in case handler (Handlers t) tag of
           Some f \<Rightarrow> Inr f
         | None \<Rightarrow>
             if tag = ''expand'' then
               if length parts = 1 then Inl (New ''expand: missing regex'')
               else
                 (case Compile (parts ! 1) of
                    Inl err \<Rightarrow> Inl (Wrap err (''regexp: '' @ parts ! 1))
                  | Inr re \<Rightarrow>
                      (case Expand re [] of
                         Inl err \<Rightarrow> Inl err
                       | Inr f \<Rightarrow> Inr f))
             else Inl (New (''unknown transform: '' @ tag)))"

text \<open>
  \<^verbatim>\<open>AddStringRules\<close>: the inner loop over the pieces of one argument, then the outer
  loop over the arguments. The result is the returned error and the configuration, whose
  \<^verbatim>\<open>Rules\<close> the call has appended to.
\<close>

fun add_pieces ::
  "(string \<Rightarrow> error + Regexp) \<Rightarrow> 'w Transform \<Rightarrow> string list \<Rightarrow> error option \<times> 'w Transform" where
  "add_pieces Compile t [] = (None, t)"
| "add_pieces Compile t (s # ss) =
     (if TrimSpace s \<noteq> '''' then
        (case ParseStringRule Compile t (TrimSpace s) of
           Inl err \<Rightarrow> (Some err, t)
         | Inr f \<Rightarrow> add_pieces Compile (t\<lparr>Rules := Rules t @ [Some f]\<rparr>) ss)
      else add_pieces Compile t ss)"

fun AddStringRules ::
  "(string \<Rightarrow> error + Regexp) \<Rightarrow> 'w Transform \<Rightarrow> string list \<Rightarrow> error option \<times> 'w Transform" where
  "AddStringRules Compile t [] = (None, t)"
| "AddStringRules Compile t (r # rules) =
     (case add_pieces Compile t (Split r '','') of
        (Some err, t') \<Rightarrow> (Some err, t')
      | (None, t') \<Rightarrow> AddStringRules Compile t' rules)"

section \<open>The pipeline\<close>

text \<open>
  The loop of \<^verbatim>\<open>Transform\<close>. A function that panics ends the call with the panic; a
  function that returns an error ends it with the empty string and the wrapped error.
\<close>

fun apply_rules ::
  "LookupFunc list \<Rightarrow> string \<Rightarrow> 'w TransformFunc option list \<Rightarrow> 'w
     \<Rightarrow> (string \<times> error option) option \<times> 'w" where
  "apply_rules L s [] w = (Some (s, None), w)"
| "apply_rules L s (None # ff) w = apply_rules L s ff w"
| "apply_rules L s (Some f # ff) w =
     (case f L s w of
        (None, w') \<Rightarrow> (None, w')
      | (Some (s', Some err), w') \<Rightarrow> (Some ('''', Some (Wrap err ''rule'')), w')
      | (Some (s', None), w') \<Rightarrow> apply_rules L s' ff w')"

definition Transform ::
  "'w Transform \<Rightarrow> string \<Rightarrow> 'w TransformFunc option list \<Rightarrow> 'w
     \<Rightarrow> (string \<times> error option) option \<times> 'w" where
  "Transform t s ff w = apply_rules (Lookups t) s (if length ff = 0 then Rules t else ff) w"

section \<open>Notions used in the statements\<close>

text \<open>
  ``Every occurrence of \<^verbatim>\<open>%s\<close> is replaced by the name'', read from the left over the
  template: at \<^verbatim>\<open>%s\<close> the name is written and the scan goes on behind it.
\<close>

fun replace_each :: "string \<Rightarrow> string \<Rightarrow> string" where
  "replace_each name (c # d # rest) =
     (if c = CHR ''%'' \<and> d = CHR ''s'' then name @ replace_each name rest
      else c # replace_each name (d # rest))"
| "replace_each name [c] = [c]"
| "replace_each name [] = []"

text \<open>
  Stages for the examples: \<open>counted f\<close> runs \<open>f\<close> and counts the call in the state, which
  is the number of stages run so far; \<open>always_fails\<close> returns an error next to a string
  that is not empty.
\<close>

definition counted :: "unit TransformFunc \<Rightarrow> nat TransformFunc" where
  "counted f L s n = (fst (f L s ()), Suc n)"

definition always_fails :: "'w TransformFunc" where
  "always_fails L s w = (Some (''partial'', Some (New ''stage failed'')), w)"

text \<open>
  A regular expression given by the table of its answers: the index of each named group,
  and the matches in each of the listed inputs (no match in any other input).
\<close>

definition regexp_of_table ::
  "string \<Rightarrow> (string \<times> int) list \<Rightarrow> (string \<times> int list list) list \<Rightarrow> Regexp" where
  "regexp_of_table src groups found =
     \<lparr>String = src,
      SubexpIndex = (\<lambda>name. case map_of groups name of Some i \<Rightarrow> i | None \<Rightarrow> - 1),
      FindAllStringSubmatchIndex = (\<lambda>s. case map_of found s of Some ms \<Rightarrow> ms | None \<Rightarrow> [])\<rparr>"

text \<open>
  The pattern \<^verbatim>\<open>[$][{](?P<key>[A-Z0-9_]+)[}]\<close> on three inputs, with the positions
  Go reports.
\<close>

definition braces :: Regexp where
  "braces = regexp_of_table ''[$][{](?P<key>[A-Z0-9_]+)[}]'' [(''key'', 1)]
     [(''Hello ${NAME}!'', [[6, 13, 8, 12]]),
      (''${X}'', [[0, 4, 2, 3]]),
      (''${A}-${B}'', [[0, 4, 2, 3], [5, 9, 7, 8]])]"

definition empty_config :: "'w Transform" where
  "empty_config = \<lparr>Handlers = Map.empty, Lookups = [], Rules = []\<rparr>"

section \<open>Lemmas about the string functions\<close>

lemma Index_Some_iff: "Index s sub \<noteq> None \<longleftrightarrow> (\<exists>a b. s = a @ sub @ b)"
proof (induction s)
  case Nil
  then show ?case by simp
next
  case (Cons c cs)
  show ?case
  proof (cases "prefix sub (c # cs)")
    case True
    then obtain b where "c # cs = sub @ b" by (auto simp: prefix_def)
    then have "c # cs = [] @ sub @ b" by simp
    then show ?thesis using True by (metis Index.simps(2) option.distinct(1))
  next
    case False
    have "(\<exists>a b. c # cs = a @ sub @ b) \<longleftrightarrow> (\<exists>a b. cs = a @ sub @ b)"
    proof
      assume "\<exists>a b. c # cs = a @ sub @ b"
      then obtain a b where ab: "c # cs = a @ sub @ b" by blast
      show "\<exists>a b. cs = a @ sub @ b"
      proof (cases a)
        case Nil
        then have "prefix sub (c # cs)" using ab by (simp add: prefix_def)
        then show ?thesis using False by simp
      next
        case (Cons x a')
        then have "cs = a' @ sub @ b" using ab by simp
        then show ?thesis by blast
      qed
    next
      assume "\<exists>a b. cs = a @ sub @ b"
      then obtain a b where "cs = a @ sub @ b" by blast
      then have "c # cs = (c # a) @ sub @ b" by simp
      then show "\<exists>a b. c # cs = a @ sub @ b" by blast
    qed
    then show ?thesis using False Cons.IH by simp
  qed
qed

lemma Index_bound: "Index s sub = Some j \<Longrightarrow> j + length sub \<le> length s"
proof (induction s arbitrary: j)
  case Nil
  then show ?case by (simp split: if_splits)
next
  case (Cons c cs)
  then show ?case by (auto split: if_splits dest: prefix_length_le)
qed

lemma replace_each_no_verb: "Index s ''%s'' = None \<Longrightarrow> replace_each name s = s"
  by (induction name s rule: replace_each.induct) (auto split: if_splits)

lemma replace_each_first:
  "Index s ''%s'' = Some j \<Longrightarrow>
     replace_each name s = take j s @ name @ replace_each name (drop (j + 2) s)"
  by (induction name s arbitrary: j rule: replace_each.induct) (auto split: if_splits)

lemma replace_n_each:
  "length s \<le> k \<Longrightarrow> replace_n (count_from k s ''%s'') s ''%s'' name = replace_each name s"
proof (induction k arbitrary: s)
  case 0
  then show ?case by simp
next
  case (Suc k)
  show ?case
  proof (cases "Index s ''%s''")
    case None
    then show ?thesis by (simp add: replace_each_no_verb)
  next
    case (Some j)
    have "length (drop (j + 2) s) \<le> k"
      using Index_bound [OF Some] Suc.prems by simp
    then have "replace_n (count_from k (drop (j + 2) s) ''%s'') (drop (j + 2) s) ''%s'' name
                 = replace_each name (drop (j + 2) s)"
      by (rule Suc.IH)
    then show ?thesis using Some by (simp add: replace_each_first [OF Some])
  qed
qed

lemma replace_each_self: "replace_each ''%s'' s = s"
  by (induction "''%s''" s rule: replace_each.induct) auto

lemma ReplaceAll_each: "ReplaceAll val ''%s'' name = replace_each name val"
  by (auto simp: ReplaceAll_def Count_def replace_n_each replace_each_self)

section \<open>Lookups\<close>

text \<open>
  C10. The lookup returned by \<^verbatim>\<open>LookupStatic(val)\<close> reports \<open>found = true\<close> for every
  name. If \<open>val\<close> contains \<^verbatim>\<open>%s\<close>, the value is \<open>val\<close> with every occurrence of
  \<^verbatim>\<open>%s\<close> replaced by the name; otherwise it is \<open>val\<close> itself.
\<close>

theorem LookupStatic_always_found:
  "snd (LookupStatic val name) = True
   \<and> ((\<exists>a b. val = a @ ''%s'' @ b) \<longrightarrow> fst (LookupStatic val name) = replace_each name val)
   \<and> ((\<nexists>a b. val = a @ ''%s'' @ b) \<longrightarrow> fst (LookupStatic val name) = val)"
proof -
  have "Contains val ''%s'' \<longleftrightarrow> (\<exists>a b. val = a @ ''%s'' @ b)"
    by (simp only: Contains_def Index_Some_iff)
  then show ?thesis
    by (auto simp: LookupStatic_def ReplaceAll_each)
qed

theorem LookupStatic_always_found_witness:
  "(\<exists>a b. ''<%s>=%s'' = a @ ''%s'' @ b) \<and> LookupStatic ''<%s>=%s'' ''HOME'' = (''<HOME>=HOME'', True)
   \<and> (\<nexists>a b. ''fixed'' = a @ ''%s'' @ b) \<and> LookupStatic ''fixed'' ''HOME'' = (''fixed'', True)"
proof -
  have "Index ''<%s>=%s'' ''%s'' \<noteq> None" by simp
  then have c1: "\<exists>a b. ''<%s>=%s'' = a @ ''%s'' @ b"
    using Index_Some_iff [of "''<%s>=%s''" "''%s''"] by blast
  have "\<not> Index ''fixed'' ''%s'' \<noteq> None" by simp
  then have c2: "\<nexists>a b. ''fixed'' = a @ ''%s'' @ b"
    using Index_Some_iff [of "''fixed''" "''%s''"] by blast
  show ?thesis
    using c1 c2 LookupStatic_always_found [of "''<%s>=%s''" "''HOME''"]
      LookupStatic_always_found [of "''fixed''" "''HOME''"]
    by (simp add: prod_eq_iff)
qed

text \<open>
  C9. The lookup returned by \<^verbatim>\<open>LookupEnv\<close> reports \<open>found = false\<close> when
  \<^verbatim>\<open>os.Getenv\<close> gives the empty string for the name. A variable set to the empty string
  gives the same answer as the variable removed from the environment, and resolution goes
  on to the lookups behind it.
\<close>

theorem LookupEnv_empty_is_unset:
  assumes "Getenv env name = ''''"
  shows "LookupEnv env name = ('''', False)
         \<and> LookupEnv env name = LookupEnv (env(name := None)) name
         \<and> resolve (LookupEnv env # ff) name = resolve ff name"
  using assms by (simp add: LookupEnv_def Getenv_def)

theorem LookupEnv_empty_is_unset_witness:
  "Getenv [''HOME'' \<mapsto> ''''] ''HOME'' = ''''
   \<and> LookupEnv [''HOME'' \<mapsto> ''''] ''HOME'' = ('''', False)
   \<and> LookupEnv [''HOME'' \<mapsto> ''''] ''HOME'' = LookupEnv Map.empty ''HOME''
   \<and> resolve [LookupEnv [''HOME'' \<mapsto> ''''], LookupHandlers [''HOME'' \<mapsto> ''/root'']] ''HOME''
       = ''/root''"
proof -
  have h: "Getenv [''HOME'' \<mapsto> ''''] ''HOME'' = ''''" by (simp add: Getenv_def)
  show ?thesis
    using h LookupEnv_empty_is_unset [OF h, of "[LookupHandlers [''HOME'' \<mapsto> ''/root'']]"]
    by (simp add: LookupHandlers_def LookupEnv_def Getenv_def)
qed

section \<open>Evaluating the string functions\<close>

lemma runes_Nil: "runes [] = []"
  by (subst runes.simps) simp

lemma runes_Cons:
  "runes (c # cs) =
     fst (DecodeRuneInString (c # cs)) # runes (drop (snd (DecodeRuneInString (c # cs))) (c # cs))"
  by (subst runes.simps) simp

lemma TrimLeftSpace_Nil: "TrimLeftSpace [] = []"
  by (subst TrimLeftSpace.simps) simp

lemma TrimLeftSpace_Cons:
  "TrimLeftSpace (c # cs) =
     (if IsSpace (fst (DecodeRuneInString (c # cs)))
      then TrimLeftSpace (drop (snd (DecodeRuneInString (c # cs))) (c # cs))
      else c # cs)"
  by (subst TrimLeftSpace.simps) simp

lemma TrimRightSpace_Nil: "TrimRightSpace [] = []"
  by (subst TrimRightSpace.simps) simp

lemma TrimRightSpace_Cons:
  "TrimRightSpace (c # cs) =
     (if IsSpace (fst (DecodeLastRuneInString (c # cs)))
      then TrimRightSpace (take (length (c # cs) - snd (DecodeLastRuneInString (c # cs))) (c # cs))
      else c # cs)"
  by (subst TrimRightSpace.simps) simp

lemma char_eq_char_of: "c = char_of (n::nat) \<longleftrightarrow> take_bit 8 n = of_char c"
  using char_of_eq_iff [of n c] by auto

lemmas string_eval =
  ToUpper_def ToLower_def TrimSpace_def isASCII_def byte_def in_range_def Map_runes_def
  runes_Nil runes_Cons TrimLeftSpace_Nil TrimLeftSpace_Cons TrimRightSpace_Nil
  TrimRightSpace_Cons DecodeRuneInString_def DecodeLastRuneInString_def RuneStart_def
  RuneError_def second_lo_def second_hi_def IsSpace_def unicode_ToUpper_def
  unicode_ToLower_def EncodeRune_def char_of_eq_iff char_eq_char_of

section \<open>Capitalize\<close>

lemma Capitalize_empty: "Capitalize L '''' w = (Some ('''', None), w)"
  by (simp add: Capitalize_def)

lemma Capitalize_hELLO: "Capitalize L ''hELLO'' w = (Some (''Hello'', None), w)"
  by (simp add: Capitalize_def string_eval)

lemma Capitalize_never_fails: "\<exists>out. Capitalize L s w = (Some (out, None), w)"
  by (simp add: Capitalize_def)

lemma ToUpper_non_ASCII_byte:
  assumes "0x80 \<le> byte c"
  shows "ToUpper [c] = [CHR 0xEF, CHR 0xBF, CHR 0xBD]"
proof -
  have "DecodeRune [byte c] = (RuneError, 1)"
    using assms by (auto simp: in_range_def)
  then have "runes [c] = [RuneError]"
    by (simp add: runes_Cons runes_Nil DecodeRuneInString_def)
  moreover have "EncodeRune (unicode_ToUpper RuneError) = [CHR 0xEF, CHR 0xBF, CHR 0xBD]"
    by (simp add: string_eval)
  ultimately show ?thesis
    using assms by (simp add: ToUpper_def isASCII_def Map_runes_def)
qed

text \<open>
  \<^verbatim>\<open>s[:1]\<close> is the first byte. When the first character of \<open>s\<close> is not ASCII, that byte
  is no character by itself, and \<^verbatim>\<open>strings.ToUpper\<close> writes U+FFFD for it.
\<close>

lemma Capitalize_first_byte:
  assumes "0x80 \<le> byte c"
  shows "Capitalize L (c # rest) w
           = (Some ([CHR 0xEF, CHR 0xBF, CHR 0xBD] @ ToLower rest, None), w)"
  using ToUpper_non_ASCII_byte [OF assms] by (simp add: Capitalize_def)

text \<open>
  C3. \<^verbatim>\<open>Capitalize\<close> uppercases the first character and lowercases the rest, character by
  character. On \<^verbatim>\<open>"\<close>\<open>\<acute>e\<close>\<^verbatim>\<open>"\<close> (U+00E9, the bytes C3 A9) the code returns U+FFFD twice (the
  bytes EF BF BD EF BF BD), where uppercasing the character gives U+00C9 (the bytes C3 89),
  as \<^verbatim>\<open>strings.ToUpper\<close> does on the whole string.
\<close>

theorem Capitalize_e_acute:
  "Capitalize L [CHR 0xC3, CHR 0xA9] w
     = (Some ([CHR 0xEF, CHR 0xBF, CHR 0xBD, CHR 0xEF, CHR 0xBF, CHR 0xBD], None), w)
   \<and> ToUpper [CHR 0xC3, CHR 0xA9] = [CHR 0xC3, CHR 0x89]"
  by (simp add: Capitalize_def string_eval)

section \<open>The handler registry\<close>

lemma ToLower_trim: "ToLower ''trim'' = ''trim''"
  by (simp add: string_eval)

lemma builtins_distinct: "distinct [NOP, Trim, Downcase, Upcase, Capitalize :: 'w TransformFunc]"
proof -
  have neq: "f \<noteq> g" if "f [] s undefined \<noteq> g [] s undefined"
    for f g :: "'w TransformFunc" and s
    using that by auto
  have "NOP \<noteq> (Trim :: 'w TransformFunc)"
    by (rule neq [of _ "'' a''"]) (simp add: NOP_def Trim_def string_eval)
  moreover have "NOP \<noteq> (Downcase :: 'w TransformFunc)"
    by (rule neq [of _ "''A''"]) (simp add: NOP_def Downcase_def string_eval)
  moreover have "NOP \<noteq> (Upcase :: 'w TransformFunc)"
    by (rule neq [of _ "''a''"]) (simp add: NOP_def Upcase_def string_eval)
  moreover have "NOP \<noteq> (Capitalize :: 'w TransformFunc)"
    by (rule neq [of _ "''a''"]) (simp add: NOP_def Capitalize_def string_eval)
  moreover have "Trim \<noteq> (Downcase :: 'w TransformFunc)"
    by (rule neq [of _ "''A''"]) (simp add: Trim_def Downcase_def string_eval)
  moreover have "Trim \<noteq> (Upcase :: 'w TransformFunc)"
    by (rule neq [of _ "''a''"]) (simp add: Trim_def Upcase_def string_eval)
  moreover have "Trim \<noteq> (Capitalize :: 'w TransformFunc)"
    by (rule neq [of _ "''a''"]) (simp add: Trim_def Capitalize_def string_eval)
  moreover have "Downcase \<noteq> (Upcase :: 'w TransformFunc)"
    by (rule neq [of _ "''a''"]) (simp add: Downcase_def Upcase_def string_eval)
  moreover have "Downcase \<noteq> (Capitalize :: 'w TransformFunc)"
    by (rule neq [of _ "''a''"]) (simp add: Downcase_def Capitalize_def string_eval)
  moreover have "Upcase \<noteq> (Capitalize :: 'w TransformFunc)"
    by (rule neq [of _ "''ab''"]) (simp add: Upcase_def Capitalize_def string_eval)
  ultimately show ?thesis by simp
qed

text \<open>
  C4. \<^verbatim>\<open>ResetHandlers\<close> installs exactly the built-in tags: the empty tag and
  \<^verbatim>\<open>nop\<close> (both the identity), \<^verbatim>\<open>trim\<close>, \<^verbatim>\<open>downcase\<close>, \<^verbatim>\<open>upcase\<close> and
  \<^verbatim>\<open>capitalize\<close>. The registry after the reset does not depend on the registry before
  it, so custom registrations are gone; \<^verbatim>\<open>Lookups\<close> and \<^verbatim>\<open>Rules\<close> are left alone. In
  particular, registering \<^verbatim>\<open>nil\<close> under \<^verbatim>\<open>trim\<close> removes the tag, and after
  \<^verbatim>\<open>ResetHandlers\<close> the tag is bound to \<^verbatim>\<open>Trim\<close> again.
\<close>

theorem ResetHandlers_builtins:
  "dom (Handlers (ResetHandlers t))
     = {'''', ''nop'', ''trim'', ''downcase'', ''upcase'', ''capitalize''}
   \<and> handler (Handlers (ResetHandlers t)) '''' = Some NOP
   \<and> handler (Handlers (ResetHandlers t)) ''nop'' = Some NOP
   \<and> handler (Handlers (ResetHandlers t)) ''trim'' = Some Trim
   \<and> handler (Handlers (ResetHandlers t)) ''downcase'' = Some Downcase
   \<and> handler (Handlers (ResetHandlers t)) ''upcase'' = Some Upcase
   \<and> handler (Handlers (ResetHandlers t)) ''capitalize'' = Some Capitalize
   \<and> Handlers (ResetHandlers t) = Handlers (ResetHandlers t')
   \<and> Lookups (ResetHandlers t) = Lookups t
   \<and> Rules (ResetHandlers t) = Rules t
   \<and> handler (Handlers (Handler ''trim'' None t)) ''trim'' = None
   \<and> handler (Handlers (ResetHandlers (Handler ''trim'' None t))) ''trim'' = Some Trim"
  by (auto simp: ResetHandlers_def Handler_def handler_def ToLower_trim)

section \<open>The pipeline\<close>

lemma apply_rules_append:
  "apply_rules L s (ff @ gg) w =
     (case apply_rules L s ff w of
        (Some (s', None), w') \<Rightarrow> apply_rules L s' gg w'
      | r \<Rightarrow> r)"
proof (induction ff arbitrary: s w)
  case Nil
  then show ?case by simp
next
  case (Cons f ff)
  show ?case
  proof (cases f)
    case None
    then show ?thesis using Cons.IH by simp
  next
    case (Some g)
    then show ?thesis using Cons.IH
      by (simp split: prod.splits option.splits)
  qed
qed

lemma apply_rules_skips_nil:
  "apply_rules L s ff w = apply_rules L s (filter (\<lambda>f. f \<noteq> None) ff) w"
proof (induction ff arbitrary: s w)
  case Nil
  then show ?case by simp
next
  case (Cons f ff)
  then show ?case
    by (cases f) (simp_all split: prod.splits option.splits)
qed

lemma apply_rules_error:
  "apply_rules L s ff w = (Some (out, Some err), w') \<Longrightarrow> out = ''''"
proof (induction ff arbitrary: s w)
  case Nil
  then show ?case by simp
next
  case (Cons f ff)
  then show ?case
    by (cases f) (auto split: prod.splits option.splits)
qed

text \<open>
  C5. \<^verbatim>\<open>Transform\<close> runs the functions given, or \<^verbatim>\<open>Rules\<close> when none is given. The
  empty sequence returns the input; \<^verbatim>\<open>nil\<close> entries are skipped; a function receives the
  string, and the state, that the functions before it have produced. When the functions
  \<open>pre\<close> have succeeded and the next one returns an error, the call returns that error
  wrapped with \<^verbatim>\<open>rule\<close>, whatever functions \<open>rest\<close> follow, and the state is the one the
  failing function left: no later function has run.
\<close>

theorem Transform_pipeline:
  "Transform t s ff w = apply_rules (Lookups t) s (if ff = [] then Rules t else ff) w
   \<and> apply_rules (Lookups t) s [] w = (Some (s, None), w)
   \<and> apply_rules (Lookups t) s gg w = apply_rules (Lookups t) s (filter (\<lambda>f. f \<noteq> None) gg) w
   \<and> (apply_rules (Lookups t) s pre w = (Some (s1, None), w1)
        \<and> f (Lookups t) s1 w1 = (Some (s2, None), w2)
      \<longrightarrow> apply_rules (Lookups t) s (pre @ [Some f]) w = (Some (s2, None), w2))
   \<and> (apply_rules (Lookups t) s pre w = (Some (s1, None), w1)
        \<and> f (Lookups t) s1 w1 = (Some (s2, Some err), w2)
      \<longrightarrow> apply_rules (Lookups t) s (pre @ Some f # rest) w
            = (Some ('''', Some (Wrap err ''rule'')), w2)
          \<and> Error (Wrap err ''rule'') = ''rule: '' @ Error err)"
proof -
  have "Transform t s ff w = apply_rules (Lookups t) s (if ff = [] then Rules t else ff) w"
    by (simp add: Transform_def)
  moreover have "apply_rules (Lookups t) s gg w
                   = apply_rules (Lookups t) s (filter (\<lambda>f. f \<noteq> None) gg) w"
    by (rule apply_rules_skips_nil)
  ultimately show ?thesis
    by (simp add: apply_rules_append)
qed

theorem Transform_pipeline_witness:
  "Transform empty_config ''abc''
     [Some (counted Upcase), None, Some (counted always_fails), Some (counted Downcase)] 0
   = (Some ('''', Some (Wrap (New ''stage failed'') ''rule'')), 2)"
proof -
  have up: "ToUpper ''abc'' = ''ABC''" by (simp add: string_eval)
  have pre: "apply_rules (Lookups (empty_config :: nat Transform)) ''abc'' [Some (counted Upcase), None] 0
               = (Some (''ABC'', None), 1)"
    by (simp add: counted_def Upcase_def up)
  have fails: "counted always_fails (Lookups (empty_config :: nat Transform)) ''ABC'' 1
                 = (Some (''partial'', Some (New ''stage failed'')), 2)"
    by (simp add: counted_def always_fails_def)
  note pipeline = Transform_pipeline [of empty_config "''abc''"
        "[Some (counted Upcase), None, Some (counted always_fails), Some (counted Downcase)]"
        0 "[]" "[Some (counted Upcase), None]" "''ABC''" 1 "counted always_fails"
        "''partial''" 2 "New ''stage failed''" "[Some (counted Downcase)]"]
  have "apply_rules (Lookups (empty_config :: nat Transform)) ''abc''
          ([Some (counted Upcase), None] @ Some (counted always_fails) # [Some (counted Downcase)]) 0
        = (Some ('''', Some (Wrap (New ''stage failed'') ''rule'')), 2)"
    by (rule pipeline [THEN conjunct2, THEN conjunct2, THEN conjunct2, THEN conjunct2,
          THEN mp, OF conjI [OF pre fails], THEN conjunct1])
  moreover have "Transform empty_config ''abc''
      [Some (counted Upcase), None, Some (counted always_fails), Some (counted Downcase)] 0
    = apply_rules (Lookups (empty_config :: nat Transform)) ''abc''
        [Some (counted Upcase), None, Some (counted always_fails), Some (counted Downcase)] 0"
    by (simp add: Transform_def)
  ultimately show ?thesis by simp
qed

end
